theory Spec2Isabelle
  imports Main "HOL-Library.Word"
begin

section \<open>The socket module (socket/socket.js)\<close>

text \<open>
  The module keeps one module-level variable, \<^verbatim>\<open>let socket = null\<close>, and exports
  \<^verbatim>\<open>connectSocket\<close>, \<^verbatim>\<open>getSocket\<close> and \<^verbatim>\<open>disconnectSocket\<close>.
  A socket object is modelled by the options it was created with by \<^verbatim>\<open>io(url, opts)\<close>
  and by the names of the events on which the module registered a listener.
\<close>

record sock =
  url :: string
  path :: string
  auth_token :: string
  transports :: "string list"
  reconnection :: bool
  reconnectionAttempts :: nat
  reconnectionDelay :: nat
  listeners :: "string list"

text \<open>
  The module state: the variable \<^verbatim>\<open>socket\<close> (\<open>None\<close> is \<^verbatim>\<open>null\<close>) and, as the
  observable effect of \<^verbatim>\<open>socket.disconnect()\<close>, the sockets that were torn down, in
  the order of the calls.
\<close>

record socket_module =
  socket :: "sock option"
  torn_down :: "sock list"

definition SOCKET_URL :: string where
  "SOCKET_URL = ''http://localhost:8000''"

text \<open>\<^verbatim>\<open>io(SOCKET_URL, {path, auth: {token}, transports, reconnection, ...})\<close>\<close>

definition io :: "string \<Rightarrow> string \<Rightarrow> sock" where
  "io u token =
     \<lparr>url = u, path = ''/socket.io/'', auth_token = token,
      transports = [''websocket'', ''polling''], reconnection = True,
      reconnectionAttempts = 5, reconnectionDelay = 2000, listeners = []\<rparr>"

text \<open>\<^verbatim>\<open>socket.on(event, handler)\<close>; the three handlers of the module only log.\<close>

definition on :: "string \<Rightarrow> sock \<Rightarrow> sock" where
  "on ev s = s\<lparr>listeners := listeners s @ [ev]\<rparr>"

text \<open>
  \<^verbatim>\<open>connectSocket(token)\<close>: \<^verbatim>\<open>if (socket) return socket;\<close> otherwise a socket is
  created, the three listeners are registered, and it is stored and returned.
\<close>

definition connectSocket :: "string \<Rightarrow> socket_module \<Rightarrow> sock \<times> socket_module" where
  "connectSocket token m =
     (case socket m of
        Some s \<Rightarrow> (s, m)
      | None \<Rightarrow>
          (let s = on ''disconnect'' (on ''connect_error'' (on ''connect'' (io SOCKET_URL token)))
           in (s, m\<lparr>socket := Some s\<rparr>)))"

definition getSocket :: "socket_module \<Rightarrow> sock option" where
  "getSocket m = socket m"

text \<open>\<^verbatim>\<open>disconnectSocket()\<close>: \<^verbatim>\<open>if (socket) { socket.disconnect(); socket = null; }\<close>\<close>

definition disconnectSocket :: "socket_module \<Rightarrow> socket_module" where
  "disconnectSocket m =
     (case socket m of
        Some s \<Rightarrow> m\<lparr>torn_down := torn_down m @ [s], socket := None\<rparr>
      | None \<Rightarrow> m)"

text \<open>The module as loaded: no socket, nothing torn down.\<close>

definition module_init :: socket_module where
  "module_init = \<lparr>socket = None, torn_down = []\<rparr>"

section \<open>The chat page (pages/Chat.jsx)\<close>

subsection \<open>Data\<close>

text \<open>
  A JavaScript string is a sequence of UTF-16 code units; \<^verbatim>\<open>s.slice(0, n)\<close> keeps the
  first \<open>n\<close> of them. Identifiers and timestamps are only compared and copied, so they
  are plain strings.
\<close>

type_synonym js_string = "16 word list"

record chat =
  c_id :: string
  c_name :: "js_string option"
  chat_type :: string
  participants :: "string list"
  last_message_preview :: "js_string option"
  last_message_at :: "string option"

text \<open>
  A message as pushed by the server or returned by the history request. \<open>content\<close> is
  \<open>None\<close> when the field is \<^verbatim>\<open>null\<close> or \<^verbatim>\<open>undefined\<close> (the source reads it with
  \<^verbatim>\<open>?.\<close>).
\<close>

record message =
  m_id :: string
  chat_id :: string
  sender_id :: string
  content :: "js_string option"
  created_at :: string
  is_edited :: bool
  is_deleted :: bool

text \<open>
  React compares state values and effect dependencies with \<^verbatim>\<open>Object.is\<close>, that is, by
  the identity of the object. The selected chat is therefore an object: a value together
  with its address. Two objects are the same exactly when their addresses are equal.
\<close>

type_synonym chat_obj = "nat \<times> chat"

datatype signal = join_chat string | leave_chat string | typing_start string | typing_stop string

datatype request = GetChats | GetMessages string

datatype js_error = Rejected string | TypeError

text \<open>
  What an awaited request gives back: a rejection (\<open>Inl\<close>), or a response whose
  \<^verbatim>\<open>data\<close> may be missing and whose list field (\<^verbatim>\<open>data.chats\<close>, \<^verbatim>\<open>data.messages\<close>)
  may be missing.
\<close>

type_synonym 'a fetch_result = "js_error + 'a list option option"

record page =
  chats :: "chat list"
  selectedChat :: "chat_obj option"
  messages :: "message list"
  loadingChats :: bool
  sockmod :: socket_module
  new_message_handler :: "chat_obj option option"
  effect_dep :: "nat option"
  leave_cleanup :: "string option"
  emitted :: "signal list"
  requests :: "request list"
  console :: "js_error list"
  unhandled :: "js_error list"

text \<open>
  Besides the four state variables of the component, the record holds what the component
  shares with its environment: the socket module; the \<^verbatim>\<open>new_message\<close> listener
  currently registered on the socket (\<open>None\<close>: none; \<open>Some sel\<close>: the closure that
  captured \<open>sel\<close> as \<^verbatim>\<open>selectedChat\<close>); the dependency React remembers for the effects on
  \<^verbatim>\<open>[selectedChat]\<close>; the chat id captured by the cleanup of the join effect (\<open>None\<close>
  when the effect returned early); the signals emitted on the socket, the requests made and
  the errors logged, in order; and the rejections no caller handled.
\<close>

subsection \<open>State setters\<close>

definition setChats :: "chat list \<Rightarrow> page \<Rightarrow> page" where
  "setChats cs st = st\<lparr>chats := cs\<rparr>"

definition setMessages :: "message list \<Rightarrow> page \<Rightarrow> page" where
  "setMessages ms st = st\<lparr>messages := ms\<rparr>"

definition setLoadingChats :: "bool \<Rightarrow> page \<Rightarrow> page" where
  "setLoadingChats b st = st\<lparr>loadingChats := b\<rparr>"

text \<open>A state setter keeps the old state when it is given the very same object.\<close>

definition setSelectedChat :: "chat_obj \<Rightarrow> page \<Rightarrow> page" where
  "setSelectedChat c st =
     (if map_option fst (selectedChat st) = Some (fst c) then st
      else st\<lparr>selectedChat := Some c\<rparr>)"

definition console_error :: "js_error \<Rightarrow> page \<Rightarrow> page" where
  "console_error e st = st\<lparr>console := console st @ [e]\<rparr>"

subsection \<open>fetchChats and fetchMessages\<close>

text \<open>
  An \<^verbatim>\<open>async\<close> function runs up to its \<^verbatim>\<open>await\<close> when called (the request is made)
  and resumes when the request settles. The resumption is a function of the outcome and
  of the state at that moment; it returns \<open>Inl\<close> when the function's promise rejects.

  \<^verbatim>\<open>try { const res = await chatApi.getChats(); setChats(res.data.chats || []); }
  catch (err) { console.error(...); } finally { setLoadingChats(false); }\<close>
\<close>

definition fetchChats_start :: "page \<Rightarrow> page" where
  "fetchChats_start st = st\<lparr>requests := requests st @ [GetChats]\<rparr>"

definition fetchChats_try :: "chat fetch_result \<Rightarrow> page \<Rightarrow> js_error + page" where
  "fetchChats_try r st =
     (case r of
        Inl err \<Rightarrow> Inl err
      | Inr None \<Rightarrow> Inl TypeError
      | Inr (Some field) \<Rightarrow> Inr (setChats (case field of Some cs \<Rightarrow> cs | None \<Rightarrow> []) st))"

definition fetchChats_resume :: "chat fetch_result \<Rightarrow> page \<Rightarrow> js_error + page" where
  "fetchChats_resume r st =
     (case fetchChats_try r st of
        Inr st' \<Rightarrow> Inr (setLoadingChats False st')
      | Inl err \<Rightarrow> Inr (setLoadingChats False (console_error err st)))"

text \<open>
  \<^verbatim>\<open>try { const res = await messageApi.getMessages(chatId);
        setMessages(res.data.messages || []); }
  catch (err) { console.error(...); }\<close>
  The parameter \<^verbatim>\<open>chatId\<close> is used for the request only.
\<close>

definition fetchMessages_start :: "string \<Rightarrow> page \<Rightarrow> page" where
  "fetchMessages_start chatId st = st\<lparr>requests := requests st @ [GetMessages chatId]\<rparr>"

definition fetchMessages_try :: "string \<Rightarrow> message fetch_result \<Rightarrow> page \<Rightarrow> js_error + page" where
  "fetchMessages_try chatId r st =
     (case r of
        Inl err \<Rightarrow> Inl err
      | Inr None \<Rightarrow> Inl TypeError
      | Inr (Some field) \<Rightarrow> Inr (setMessages (case field of Some ms \<Rightarrow> ms | None \<Rightarrow> []) st))"

definition fetchMessages_resume :: "string \<Rightarrow> message fetch_result \<Rightarrow> page \<Rightarrow> js_error + page" where
  "fetchMessages_resume chatId r st =
     (case fetchMessages_try chatId r st of
        Inr st' \<Rightarrow> Inr st'
      | Inl err \<Rightarrow> Inr (console_error err st))"

text \<open>
  The callers drop the promise (\<^verbatim>\<open>fetchChats();\<close>, \<^verbatim>\<open>fetchMessages(...);\<close>), so a
  rejection would reach nobody: it is recorded as unhandled and the state stays.
\<close>

definition settle :: "js_error + page \<Rightarrow> page \<Rightarrow> page" where
  "settle r st = (case r of Inr st' \<Rightarrow> st' | Inl err \<Rightarrow> st\<lparr>unhandled := unhandled st @ [err]\<rparr>)"

subsection \<open>The handlers\<close>

text \<open>
  \<^verbatim>\<open>handleNewMessage\<close> is a closure over \<^verbatim>\<open>selectedChat\<close>, here its first argument:
  \<^verbatim>\<open>if (selectedChat && msg.chat_id === selectedChat._id) setMessages(prev => [...prev, msg]);
  setChats(prev => prev.map(c => c._id === msg.chat_id
     ? {...c, last_message_preview: msg.content?.slice(0, 60), last_message_at: msg.created_at}
     : c));\<close>
\<close>

definition project :: "message \<Rightarrow> chat \<Rightarrow> chat" where
  "project msg c =
     (if c_id c = chat_id msg
      then c\<lparr>last_message_preview := map_option (take 60) (content msg),
             last_message_at := Some (created_at msg)\<rparr>
      else c)"

definition handleNewMessage :: "chat_obj option \<Rightarrow> message \<Rightarrow> page \<Rightarrow> page" where
  "handleNewMessage sel msg st =
     (let st1 = (case sel of
                   Some c \<Rightarrow> if chat_id msg = c_id (snd c)
                             then setMessages (messages st @ [msg]) st else st
                 | None \<Rightarrow> st)
      in setChats (map (project msg) (chats st1)) st1)"

text \<open>\<^verbatim>\<open>setSelectedChat(chat); setMessages([]);\<close>\<close>

definition handleSelectChat :: "chat_obj \<Rightarrow> page \<Rightarrow> page" where
  "handleSelectChat c st = setMessages [] (setSelectedChat c st)"

text \<open>\<^verbatim>\<open>setChats(prev => [newChat, ...prev]); setSelectedChat(newChat);\<close>\<close>

definition handleChatCreated :: "chat_obj \<Rightarrow> page \<Rightarrow> page" where
  "handleChatCreated newChat st = setSelectedChat newChat (setChats (snd newChat # chats st) st)"

subsection \<open>The effects\<close>

text \<open>
  The effect on \<^verbatim>\<open>[selectedChat]\<close> that registers the listener:
  \<^verbatim>\<open>const socket = getSocket(); if (!socket) return;
  socket.on("new_message", handleNewMessage);
  return () => socket.off("new_message", handleNewMessage);\<close>
\<close>

definition listener_cleanup :: "page \<Rightarrow> page" where
  "listener_cleanup st = st\<lparr>new_message_handler := None\<rparr>"

definition listener_effect :: "page \<Rightarrow> page" where
  "listener_effect st =
     (case getSocket (sockmod st) of
        None \<Rightarrow> st
      | Some s \<Rightarrow> st\<lparr>new_message_handler := Some (selectedChat st)\<rparr>)"

text \<open>
  The effect on \<^verbatim>\<open>[selectedChat, fetchMessages]\<close>:
  \<^verbatim>\<open>const socket = getSocket(); if (!socket || !selectedChat) return;
  socket.emit("join_chat", { chat_id: selectedChat._id });
  fetchMessages(selectedChat._id);
  return () => { socket.emit("leave_chat", { chat_id: selectedChat._id }); };\<close>
\<close>

definition emit :: "signal \<Rightarrow> page \<Rightarrow> page" where
  "emit sg st = st\<lparr>emitted := emitted st @ [sg]\<rparr>"

definition join_cleanup :: "page \<Rightarrow> page" where
  "join_cleanup st =
     (case leave_cleanup st of
        None \<Rightarrow> st
      | Some cid \<Rightarrow> (emit (leave_chat cid) st)\<lparr>leave_cleanup := None\<rparr>)"

definition join_effect :: "page \<Rightarrow> page" where
  "join_effect st =
     (case getSocket (sockmod st) of
        None \<Rightarrow> st
      | Some s \<Rightarrow>
          (case selectedChat st of
             None \<Rightarrow> st
           | Some c \<Rightarrow>
               (fetchMessages_start (c_id (snd c)) (emit (join_chat (c_id (snd c))) st))
                 \<lparr>leave_cleanup := Some (c_id (snd c))\<rparr>))"

text \<open>
  After a render React looks at the dependencies: when \<^verbatim>\<open>selectedChat\<close> is another
  object than at the last run, it runs the cleanups of both effects, in the order of their
  declaration, then the effects, in the same order. (\<^verbatim>\<open>fetchMessages\<close> is a
  \<^verbatim>\<open>useCallback\<close> with no dependencies and never changes.)
\<close>

definition commit :: "page \<Rightarrow> page" where
  "commit st =
     (let dep = map_option fst (selectedChat st)
      in if dep = effect_dep st then st
         else (join_effect (listener_effect (join_cleanup (listener_cleanup st))))
                \<lparr>effect_dep := dep\<rparr>)"

text \<open>
  The first render and its effects: \<^verbatim>\<open>const token = getAccessToken();
  if (token) connectSocket(token); fetchChats();\<close>, then the two effects above with
  \<^verbatim>\<open>selectedChat = null\<close>. The empty string is falsy.
\<close>

definition mount :: "string option \<Rightarrow> socket_module \<Rightarrow> page" where
  "mount token m =
     (let m1 = (case token of
                  None \<Rightarrow> m
                | Some t \<Rightarrow> if t = [] then m else snd (connectSocket t m));
          st = \<lparr>chats = [], selectedChat = None, messages = [], loadingChats = True,
                sockmod = m1, new_message_handler = None, effect_dep = None,
                leave_cleanup = None, emitted = [], requests = [], console = [],
                unhandled = []\<rparr>
      in join_effect (listener_effect (fetchChats_start st)))"

subsection \<open>Events\<close>

text \<open>
  What can happen to the mounted page: a request settles, the sidebar calls
  \<^verbatim>\<open>onSelectChat\<close> or \<^verbatim>\<open>onChatCreated\<close>, the socket delivers \<^verbatim>\<open>new_message\<close>
  (to the listener registered, if any). Each handler runs to its end, and the render and
  the effects that follow are taken as part of the same step. The sidebar passes an
  element of the list of chats, or the chat just created; here it may be any object.
\<close>

datatype event =
    ChatsFetched "chat fetch_result"
  | MessagesFetched string "message fetch_result"
  | Select chat_obj
  | Created chat_obj
  | Push message

fun page_step :: "event \<Rightarrow> page \<Rightarrow> page" where
  "page_step (ChatsFetched r) st = commit (settle (fetchChats_resume r st) st)"
| "page_step (MessagesFetched chatId r) st = commit (settle (fetchMessages_resume chatId r st) st)"
| "page_step (Select c) st = commit (handleSelectChat c st)"
| "page_step (Created c) st = commit (handleChatCreated c st)"
| "page_step (Push msg) st =
     (case new_message_handler st of
        None \<Rightarrow> st
      | Some sel \<Rightarrow> commit (handleNewMessage sel msg st))"

definition page_run :: "event list \<Rightarrow> page \<Rightarrow> page" where
  "page_run evs st = foldl (\<lambda>s e. page_step e s) st evs"

subsection \<open>The signals seen by the server\<close>

text \<open>
  The server keeps the set of rooms of a connection: \<^verbatim>\<open>join_chat\<close> adds the room,
  \<^verbatim>\<open>leave_chat\<close> removes it. \<open>at_most_one_room\<close> replays a sequence of signals from a
  set of rooms and checks that the connection is never in two rooms.
\<close>

fun subscribe :: "signal \<Rightarrow> string list \<Rightarrow> string list" where
  "subscribe (join_chat x) rooms = (if x \<in> set rooms then rooms else rooms @ [x])"
| "subscribe (leave_chat x) rooms = removeAll x rooms"
| "subscribe sg rooms = rooms"

fun at_most_one_room :: "string list \<Rightarrow> signal list \<Rightarrow> bool" where
  "at_most_one_room rooms [] = (length rooms \<le> 1)"
| "at_most_one_room rooms (sg # t) =
     (length rooms \<le> 1 \<and> at_most_one_room (subscribe sg rooms) t)"

text \<open>
  \<open>leave_before_join cur t\<close>: with \<open>cur\<close> the room joined so far, the sequence \<open>t\<close>
  starts with a join when no room is joined, and every later join comes right after the
  leave of the room joined before it.
\<close>

fun leave_before_join :: "string option \<Rightarrow> signal list \<Rightarrow> bool" where
  "leave_before_join cur [] = True"
| "leave_before_join None (join_chat x # t) = leave_before_join (Some x) t"
| "leave_before_join (Some y) (leave_chat x # join_chat z # t) =
     (x = y \<and> leave_before_join (Some z) t)"
| "leave_before_join cur t = False"

text \<open>The typing signals among the signals: typing-start and typing-stop.\<close>

fun is_typing_signal :: "signal \<Rightarrow> bool" where
  "is_typing_signal (typing_start x) = True"
| "is_typing_signal (typing_stop x) = True"
| "is_typing_signal sg = False"

text \<open>The room joined after a sequence of signals.\<close>

fun room_after :: "string option \<Rightarrow> signal list \<Rightarrow> string option" where
  "room_after cur [] = cur"
| "room_after cur (join_chat x # t) = room_after (Some x) t"
| "room_after cur (leave_chat x # t) = room_after None t"
| "room_after cur (sg # t) = room_after cur t"

text \<open>
  What holds of the page after every step: the effects have run for the selection in the
  state, the listener registered is the one that captured it, the cleanup registered
  leaves its room, and the signals emitted so far are in leave-before-join order and end
  in that room.
\<close>

definition page_inv :: "page \<Rightarrow> bool" where
  "page_inv st \<longleftrightarrow>
     effect_dep st = map_option fst (selectedChat st)
     \<and> new_message_handler st
         = (case socket (sockmod st) of None \<Rightarrow> None | Some s \<Rightarrow> Some (selectedChat st))
     \<and> leave_cleanup st
         = (case socket (sockmod st) of
              None \<Rightarrow> None
            | Some s \<Rightarrow> map_option (\<lambda>c. c_id (snd c)) (selectedChat st))
     \<and> leave_before_join None (emitted st)
     \<and> room_after None (emitted st) = leave_cleanup st"

section \<open>The chat window (components/ChatWindow.jsx)\<close>

subsection \<open>Data\<close>

record user =
  u_id :: string
  username :: js_string

text \<open>The payload of \<^verbatim>\<open>user_typing\<close>: \<^verbatim>\<open>{chat_id, user_id, is_typing}\<close>.\<close>

record typing_data =
  t_chat_id :: string
  t_user_id :: string
  is_typing :: bool

text \<open>
  A pending timeout: its id, the time at which it is due, and what its callback does, here
  always \<^verbatim>\<open>socket.emit("typing_stop", { chat_id: chat._id })\<close> for the chat id the
  callback captured.
\<close>

record timer =
  timer_id :: nat
  due :: nat
  stop_for :: string

text \<open>
  The component has the props \<^verbatim>\<open>chat\<close> and \<^verbatim>\<open>currentUser\<close>, the state variables
  \<^verbatim>\<open>input\<close>, \<^verbatim>\<open>typingUsers\<close>, \<^verbatim>\<open>sending\<close> and the ref \<^verbatim>\<open>typingTimeoutRef\<close>. With
  them the record holds the \<^verbatim>\<open>user_typing\<close> listener registered (the closure and the
  chat and user it captured), the chat id of the send request in flight, the socket module,
  the clock in milliseconds, the pending timeouts in the order they were set, the next
  timeout id, and the signals, send requests and logged errors, in order.
\<close>

record chat_window =
  cw_chat :: "chat_obj option"
  currentUser :: "user option"
  input :: js_string
  typingUsers :: "string list"
  sending :: bool
  typingTimeoutRef :: "nat option"
  typing_listener :: "(chat_obj \<times> user option) option"
  send_in_flight :: "string option"
  cw_sockmod :: socket_module
  now :: nat
  timers :: "timer list"
  next_timer_id :: nat
  cw_emitted :: "signal list"
  sent :: "(string \<times> js_string) list"
  cw_console :: "js_error list"

subsection \<open>Timers and strings\<close>

text \<open>\<^verbatim>\<open>setTimeout(callback, delay)\<close> returns the id of the timeout it sets.\<close>

definition setTimeout :: "string \<Rightarrow> nat \<Rightarrow> chat_window \<Rightarrow> nat \<times> chat_window" where
  "setTimeout cid delay st =
     (next_timer_id st,
      st\<lparr>timers := timers st @ [\<lparr>timer_id = next_timer_id st, due = now st + delay, stop_for = cid\<rparr>],
         next_timer_id := Suc (next_timer_id st)\<rparr>)"

definition clearTimeout :: "nat \<Rightarrow> chat_window \<Rightarrow> chat_window" where
  "clearTimeout i st = st\<lparr>timers := filter (\<lambda>t. timer_id t \<noteq> i) (timers st)\<rparr>"

definition cw_emit :: "signal \<Rightarrow> chat_window \<Rightarrow> chat_window" where
  "cw_emit sg st = st\<lparr>cw_emitted := cw_emitted st @ [sg]\<rparr>"

text \<open>
  Time passes: the clock moves on by \<open>d\<close> and every timeout due by then runs its
  callback, in the order the timeouts were set (all have the same delay), and is gone.
\<close>

definition fire :: "timer \<Rightarrow> chat_window \<Rightarrow> chat_window" where
  "fire t st = cw_emit (typing_stop (stop_for t)) st"

definition elapse :: "nat \<Rightarrow> chat_window \<Rightarrow> chat_window" where
  "elapse d st =
     (let t' = now st + d;
          ready = filter (\<lambda>t. due t \<le> t') (timers st);
          st1 = st\<lparr>now := t', timers := filter (\<lambda>t. \<not> due t \<le> t') (timers st)\<rparr>
      in fold fire ready st1)"

text \<open>\<^verbatim>\<open>String.prototype.trim\<close> removes white space and line terminators at both ends.\<close>

definition is_js_space :: "16 word \<Rightarrow> bool" where
  "is_js_space u \<longleftrightarrow>
     u \<in> {0x9, 0xA, 0xB, 0xC, 0xD, 0x20, 0xA0, 0x1680, 0x2028, 0x2029, 0x202F, 0x205F,
          0x3000, 0xFEFF}
     \<or> (0x2000 \<le> u \<and> u \<le> 0x200A)"

definition trim :: "js_string \<Rightarrow> js_string" where
  "trim s = rev (dropWhile is_js_space (rev (dropWhile is_js_space s)))"

subsection \<open>The remote half: the \<^verbatim>\<open>user_typing\<close> listener\<close>

text \<open>
  The listener is a closure over \<^verbatim>\<open>chat\<close> and \<^verbatim>\<open>currentUser\<close>:
  \<^verbatim>\<open>if (data.chat_id !== chat._id) return;
  if (data.user_id === currentUser?._id) return;
  setTypingUsers(prev => { if (data.is_typing)
      return prev.includes(data.user_id) ? prev : [...prev, data.user_id];
    return prev.filter(id => id !== data.user_id); });\<close>
\<close>

definition update_typing :: "typing_data \<Rightarrow> string list \<Rightarrow> string list" where
  "update_typing data prev =
     (if is_typing data
      then (if t_user_id data \<in> set prev then prev else prev @ [t_user_id data])
      else filter (\<lambda>i. i \<noteq> t_user_id data) prev)"

definition setTypingUsers :: "string list \<Rightarrow> chat_window \<Rightarrow> chat_window" where
  "setTypingUsers us st = st\<lparr>typingUsers := us\<rparr>"

definition handleTyping_event :: "chat_obj \<Rightarrow> user option \<Rightarrow> typing_data \<Rightarrow> chat_window \<Rightarrow> chat_window" where
  "handleTyping_event c usr data st =
     (if t_chat_id data \<noteq> c_id (snd c) then st
      else if (case usr of Some u \<Rightarrow> t_user_id data = u_id u | None \<Rightarrow> False) then st
      else setTypingUsers (update_typing data (typingUsers st)) st)"

text \<open>
  The effect on \<^verbatim>\<open>[chat, currentUser]\<close>:
  \<^verbatim>\<open>const socket = getSocket(); if (!socket || !chat) return;
  socket.on("user_typing", handleTyping);
  return () => socket.off("user_typing", handleTyping);\<close>
  and the effect on \<^verbatim>\<open>[chat]\<close>: \<^verbatim>\<open>setTypingUsers([]);\<close>
\<close>

definition typing_listener_cleanup :: "chat_window \<Rightarrow> chat_window" where
  "typing_listener_cleanup st = st\<lparr>typing_listener := None\<rparr>"

definition typing_listener_effect :: "chat_window \<Rightarrow> chat_window" where
  "typing_listener_effect st =
     (case getSocket (cw_sockmod st) of
        None \<Rightarrow> st
      | Some s \<Rightarrow>
          (case cw_chat st of
             None \<Rightarrow> st
           | Some c \<Rightarrow> st\<lparr>typing_listener := Some (c, currentUser st)\<rparr>))"

definition reset_effect :: "chat_window \<Rightarrow> chat_window" where
  "reset_effect st = setTypingUsers [] st"

text \<open>
  The parent renders the window with a new \<^verbatim>\<open>chat\<close>. When it is the same object as
  before, no effect runs; otherwise the cleanup of the listener effect, then the two
  effects. \<^verbatim>\<open>currentUser\<close> is the same object for as long as the window is mounted.
\<close>

definition set_chat :: "chat_obj option \<Rightarrow> chat_window \<Rightarrow> chat_window" where
  "set_chat sel st =
     (if map_option fst sel = map_option fst (cw_chat st) then st
      else reset_effect (typing_listener_effect (typing_listener_cleanup (st\<lparr>cw_chat := sel\<rparr>))))"

subsection \<open>The local half: \<^verbatim>\<open>handleTyping\<close> and \<^verbatim>\<open>handleSend\<close>\<close>

text \<open>
  \<^verbatim>\<open>const socket = getSocket(); if (!socket || !chat) return;
  socket.emit("typing_start", { chat_id: chat._id });
  if (typingTimeoutRef.current) clearTimeout(typingTimeoutRef.current);
  typingTimeoutRef.current = setTimeout(() => {
      socket.emit("typing_stop", { chat_id: chat._id }); }, 2000);\<close>
  The number 0 is falsy.
\<close>

definition handleTyping :: "chat_window \<Rightarrow> chat_window" where
  "handleTyping st =
     (case getSocket (cw_sockmod st) of
        None \<Rightarrow> st
      | Some s \<Rightarrow>
          (case cw_chat st of
             None \<Rightarrow> st
           | Some c \<Rightarrow>
               (let st1 = cw_emit (typing_start (c_id (snd c))) st;
                    st2 = (case typingTimeoutRef st1 of
                             None \<Rightarrow> st1
                           | Some i \<Rightarrow> if i = 0 then st1 else clearTimeout i st1);
                    (i, st3) = setTimeout (c_id (snd c)) 2000 st2
                in st3\<lparr>typingTimeoutRef := Some i\<rparr>)))"

text \<open>\<^verbatim>\<open>onChange={(e) => { setInput(e.target.value); handleTyping(); }}\<close>\<close>

definition onChange :: "js_string \<Rightarrow> chat_window \<Rightarrow> chat_window" where
  "onChange v st = handleTyping (st\<lparr>input := v\<rparr>)"

text \<open>
  \<^verbatim>\<open>if (!input.trim() || !chat || sending) return;
  setSending(true);
  try { await messageApi.sendMessage(chat._id, { content: input.trim() });
        setInput("");
        const socket = getSocket();
        if (socket) socket.emit("typing_stop", { chat_id: chat._id }); }
  catch (err) { console.error(...); } finally { setSending(false); }\<close>
\<close>

definition handleSend_start :: "chat_window \<Rightarrow> chat_window" where
  "handleSend_start st =
     (case cw_chat st of
        None \<Rightarrow> st
      | Some c \<Rightarrow>
          if trim (input st) = [] \<or> sending st then st
          else st\<lparr>sending := True, send_in_flight := Some (c_id (snd c)),
                  sent := sent st @ [(c_id (snd c), trim (input st))]\<rparr>)"

definition handleSend_resume :: "js_error option \<Rightarrow> chat_window \<Rightarrow> chat_window" where
  "handleSend_resume outcome st =
     (case send_in_flight st of
        None \<Rightarrow> st
      | Some cid \<Rightarrow>
          (let st1 = (case outcome of
                        Some err \<Rightarrow> st\<lparr>cw_console := cw_console st @ [err]\<rparr>
                      | None \<Rightarrow>
                          (case getSocket (cw_sockmod st) of
                             None \<Rightarrow> st\<lparr>input := []\<rparr>
                           | Some s \<Rightarrow> cw_emit (typing_stop cid) (st\<lparr>input := []\<rparr>)))
           in st1\<lparr>sending := False, send_in_flight := None\<rparr>))"

subsection \<open>Events\<close>

text \<open>
  The window as first rendered by the page: no chat, empty input, nobody typing, the clock
  at 0. Timeout ids start at 1, as in browsers. With no chat the listener effect returns
  early whatever the socket is, so the socket module is given as it is once the page has
  run its own effects, and it stays the same while the window is mounted.
\<close>

definition cw_mount :: "user option \<Rightarrow> socket_module \<Rightarrow> chat_window" where
  "cw_mount usr m =
     \<lparr>cw_chat = None, currentUser = usr, input = [], typingUsers = [], sending = False,
      typingTimeoutRef = None, typing_listener = None, send_in_flight = None,
      cw_sockmod = m, now = 0, timers = [], next_timer_id = 1, cw_emitted = [], sent = [],
      cw_console = []\<rparr>"

datatype cw_event =
    ChatProp "chat_obj option"
  | UserTyping typing_data
  | Change js_string
  | Submit
  | SendSettled "js_error option"
  | Elapse nat

fun cw_step :: "cw_event \<Rightarrow> chat_window \<Rightarrow> chat_window" where
  "cw_step (ChatProp sel) st = set_chat sel st"
| "cw_step (UserTyping data) st =
     (case typing_listener st of
        None \<Rightarrow> st
      | Some (c, usr) \<Rightarrow> handleTyping_event c usr data st)"
| "cw_step (Change v) st = onChange v st"
| "cw_step Submit st = handleSend_start st"
| "cw_step (SendSettled outcome) st = handleSend_resume outcome st"
| "cw_step (Elapse d) st = elapse d st"

definition cw_run :: "cw_event list \<Rightarrow> chat_window \<Rightarrow> chat_window" where
  "cw_run evs st = foldl (\<lambda>s e. cw_step e s) st evs"


section \<open>Example data\<close>

definition chatA :: chat where
  "chatA = \<lparr>c_id = ''A'', c_name = None, chat_type = ''direct'', participants = [''u1'', ''u2''],
            last_message_preview = None, last_message_at = None\<rparr>"

definition chatB :: chat where
  "chatB = \<lparr>c_id = ''B'', c_name = None, chat_type = ''direct'', participants = [''u1'', ''u3''],
            last_message_preview = None, last_message_at = None\<rparr>"

text \<open>A message of chat A with the content "hi".\<close>

definition msgA1 :: message where
  "msgA1 = \<lparr>m_id = ''m1'', chat_id = ''A'', sender_id = ''u2'', content = Some [0x68, 0x69],
            created_at = ''2024-01-01T10:00:00Z'', is_edited = False, is_deleted = False\<rparr>"

text \<open>A message of chat A whose content is 61 times the letter a.\<close>

definition msgA_long :: message where
  "msgA_long = \<lparr>m_id = ''m2'', chat_id = ''A'', sender_id = ''u2'',
                content = Some (replicate 61 0x61),
                created_at = ''2024-01-01T10:05:00Z'', is_edited = False, is_deleted = False\<rparr>"

definition user1 :: user where
  "user1 = \<lparr>u_id = ''u1'', username = [0x61, 0x6E, 0x6E]\<rparr>"

text \<open>The module after \<^verbatim>\<open>connectSocket("tok")\<close>.\<close>

definition module_connected :: socket_module where
  "module_connected = snd (connectSocket ''tok'' module_init)"

text \<open>The window with chat A, for the user u1; then after one keystroke.\<close>

definition cw_A_selected :: chat_window where
  "cw_A_selected = cw_run [ChatProp (Some (1, chatA))] (cw_mount (Some user1) module_connected)"

definition cw_A_typed :: chat_window where
  "cw_A_typed = cw_step (Change [0x68]) cw_A_selected"

text \<open>The signals "u2 is typing in A" and "u2 stopped typing in A".\<close>

definition typing_u2 :: typing_data where
  "typing_u2 = \<lparr>t_chat_id = ''A'', t_user_id = ''u2'', is_typing = True\<rparr>"

definition stopped_u2 :: typing_data where
  "stopped_u2 = \<lparr>t_chat_id = ''A'', t_user_id = ''u2'', is_typing = False\<rparr>"

text \<open>The window with chat A after "u2 is typing in A" has arrived.\<close>

definition cw_u2_typing :: chat_window where
  "cw_u2_typing = cw_step (UserTyping typing_u2) cw_A_selected"

text \<open>Chat A selected and its history loaded.\<close>

definition st_A_loaded :: page where
  "st_A_loaded =
     page_run [Select (1, chatA), MessagesFetched ''A'' (Inr (Some (Some [msgA1])))]
       (mount (Some ''tok'') module_init)"

text \<open>Chat A selected, then chat B, while the history request for A is still in flight.\<close>

definition st_A_then_B :: page where
  "st_A_then_B = page_run [Select (1, chatA), Select (2, chatB)] (mount (Some ''tok'') module_init)"

text \<open>Chat A selected and loaded, then chat B created from the sidebar.\<close>

definition st_created_B :: page where
  "st_created_B =
     page_run [Select (1, chatA), MessagesFetched ''A'' (Inr (Some (Some [msgA1]))),
               Created (2, chatB)]
       (mount (Some ''tok'') module_init)"

text \<open>Chat A selected and a message pushed while its history request is in flight.\<close>

definition st_A_pushed :: page where
  "st_A_pushed = page_run [Select (1, chatA), Push msgA1] (mount (Some ''tok'') module_init)"

text \<open>Chat B created from the sidebar while the list request is in flight.\<close>

definition st_created_early :: page where
  "st_created_early = page_run [Created (2, chatB)] (mount (Some ''tok'') module_init)"

text \<open>The list of chats loaded and chat B selected.\<close>

definition st_list_B :: page where
  "st_list_B =
     page_run [ChatsFetched (Inr (Some (Some [chatA, chatB]))), Select (2, chatB)]
       (mount (Some ''tok'') module_init)"

section \<open>Connection lifecycle\<close>

text \<open>
  Claim C7 (connect idempotence). For every credential, if a connection already exists,
  \<open>connectSocket\<close> returns that connection and leaves the module state, and with it the
  credential stored in the connection, unchanged. Only when no connection exists is a new
  one opened, authenticated with the credential given, stored and returned.
\<close>

theorem connectSocket_idempotent:
  "(socket m = Some s \<longrightarrow> connectSocket token m = (s, m))
   \<and> (socket m = None \<longrightarrow>
        socket (snd (connectSocket token m)) = Some (fst (connectSocket token m))
        \<and> auth_token (fst (connectSocket token m)) = token
        \<and> torn_down (snd (connectSocket token m)) = torn_down m)
   \<and> connectSocket token' (snd (connectSocket token m))
       = (fst (connectSocket token m), snd (connectSocket token m))"
  by (cases "socket m") (simp_all add: connectSocket_def Let_def on_def io_def)

theorem connectSocket_idempotent_witness:
  "connectSocket ''t2'' (snd (connectSocket ''t1'' module_init))
     = (fst (connectSocket ''t1'' module_init), snd (connectSocket ''t1'' module_init))
   \<and> auth_token (fst (connectSocket ''t2'' (snd (connectSocket ''t1'' module_init)))) = ''t1''
   \<and> socket (snd (connectSocket ''t1'' module_init)) \<noteq> None"
  using connectSocket_idempotent
      [of "snd (connectSocket ''t1'' module_init)" "fst (connectSocket ''t1'' module_init)" "''t2''" "''t2''"]
    connectSocket_idempotent [of module_init "fst (connectSocket ''t1'' module_init)" "''t1''" "''t2''"]
  by (simp add: connectSocket_def module_init_def Let_def on_def io_def)

text \<open>
  Claim C8 (idempotent teardown). \<open>disconnectSocket\<close> tears down the active connection
  and leaves no connection; when there is none it changes nothing; so two calls in
  succession have the effect of one.
\<close>

theorem disconnectSocket_idempotent:
  "disconnectSocket (disconnectSocket m) = disconnectSocket m
   \<and> socket (disconnectSocket m) = None
   \<and> (socket m = None \<longrightarrow> disconnectSocket m = m)
   \<and> (socket m = Some s \<longrightarrow>
        torn_down (disconnectSocket m) = torn_down m @ [s])"
  by (cases "socket m") (simp_all add: disconnectSocket_def)

theorem disconnectSocket_idempotent_witness:
  "socket (snd (connectSocket ''t1'' module_init)) \<noteq> None
   \<and> disconnectSocket (disconnectSocket (snd (connectSocket ''t1'' module_init)))
       = disconnectSocket (snd (connectSocket ''t1'' module_init))
   \<and> length (torn_down (disconnectSocket (disconnectSocket (snd (connectSocket ''t1'' module_init))))) = 1
   \<and> disconnectSocket module_init = module_init"
  using disconnectSocket_idempotent
      [of "snd (connectSocket ''t1'' module_init)" "fst (connectSocket ''t1'' module_init)"]
    disconnectSocket_idempotent [of module_init "fst (connectSocket ''t1'' module_init)"]
  by (simp add: connectSocket_def disconnectSocket_def module_init_def Let_def on_def io_def)


section \<open>The chat page: invariant\<close>

lemmas page_defs = setChats_def setMessages_def setLoadingChats_def setSelectedChat_def
  console_error_def fetchChats_try_def fetchChats_resume_def fetchMessages_try_def
  fetchMessages_resume_def settle_def handleNewMessage_def handleSelectChat_def
  handleChatCreated_def listener_cleanup_def listener_effect_def emit_def join_cleanup_def
  join_effect_def fetchMessages_start_def getSocket_def

lemma lbj_join:
  "leave_before_join cur tr \<Longrightarrow> room_after cur tr = None
   \<Longrightarrow> leave_before_join cur (tr @ [join_chat x])"
  by (induction cur tr rule: leave_before_join.induct) auto

lemma lbj_leave_join:
  "leave_before_join cur tr \<Longrightarrow> room_after cur tr = Some y
   \<Longrightarrow> leave_before_join cur (tr @ [leave_chat y, join_chat z])"
  by (induction cur tr rule: leave_before_join.induct) auto

lemma room_after_append: "room_after cur (tr @ tr') = room_after (room_after cur tr) tr'"
  by (induction cur tr rule: room_after.induct) auto

lemma lbj_one_room:
  "leave_before_join cur tr
   \<Longrightarrow> at_most_one_room (case cur of None \<Rightarrow> [] | Some y \<Rightarrow> [y]) tr"
  by (induction cur tr rule: leave_before_join.induct) (auto split: option.splits)

lemma page_inv_mount: "page_inv (mount token m)"
  by (auto simp: page_inv_def mount_def Let_def join_effect_def listener_effect_def
      fetchChats_start_def getSocket_def connectSocket_def split: option.splits)

lemma page_inv_fetched:
  "page_inv st \<Longrightarrow> page_inv (page_step (ChatsFetched r) st)"
  "page_inv st \<Longrightarrow> page_inv (page_step (MessagesFetched cid r') st)"
  by (auto simp: page_inv_def commit_def Let_def page_defs split: option.splits sum.splits)

lemma page_inv_push: "page_inv st \<Longrightarrow> page_inv (page_step (Push msg) st)"
  by (auto simp: page_inv_def commit_def Let_def page_defs split: option.splits sum.splits)

lemma page_inv_select: "page_inv st \<Longrightarrow> page_inv (page_step (Select c) st)"
  by (auto simp: page_inv_def commit_def Let_def page_defs room_after_append lbj_join
      lbj_leave_join split: option.splits sum.splits)

lemma page_inv_created: "page_inv st \<Longrightarrow> page_inv (page_step (Created c) st)"
  by (auto simp: page_inv_def commit_def Let_def page_defs room_after_append lbj_join
      lbj_leave_join split: option.splits sum.splits)

lemma page_inv_step: "page_inv st \<Longrightarrow> page_inv (page_step e st)"
  by (cases e) (simp_all only: page_inv_fetched page_inv_push page_inv_select page_inv_created)

lemma page_inv_run: "page_inv st \<Longrightarrow> page_inv (page_run evs st)"
  unfolding page_run_def by (induction evs arbitrary: st) (simp_all add: page_inv_step)

lemma messages_commit: "messages (commit st) = messages st"
  by (simp add: commit_def Let_def page_defs split: option.splits)

lemma chats_commit: "chats (commit st) = chats st"
  by (simp add: commit_def Let_def page_defs split: option.splits)

lemma selectedChat_commit: "selectedChat (commit st) = selectedChat st"
  by (simp add: commit_def Let_def page_defs split: option.splits)

lemma unhandled_commit: "unhandled (commit st) = unhandled st"
  by (simp add: commit_def Let_def page_defs split: option.splits)

lemma typing_signals_commit:
  "filter is_typing_signal (emitted (commit st)) = filter is_typing_signal (emitted st)"
  by (simp add: commit_def Let_def page_defs split: option.splits)

lemma typing_signals_page_step:
  "filter is_typing_signal (emitted (page_step ev st)) = filter is_typing_signal (emitted st)"
  by (cases ev)
     (auto simp: typing_signals_commit page_defs Let_def split: option.splits sum.splits)

section \<open>Message merge\<close>

text \<open>
  Claim C1, as stated, fails: with chat A selected and its history \<open>[m1]\<close> loaded, a push
  of a message with the identifier \<open>m1\<close> for chat A changes the list; it becomes
  \<open>[m1, m1]\<close>.
\<close>

theorem push_duplicate_appended:
  "new_message_handler st_A_loaded = Some (selectedChat st_A_loaded)
   \<and> map_option snd (selectedChat st_A_loaded) = Some chatA
   \<and> chat_id msgA1 = c_id chatA
   \<and> messages st_A_loaded = [msgA1]
   \<and> m_id msgA1 \<in> set (map m_id (messages st_A_loaded))
   \<and> messages (page_step (Push msgA1) st_A_loaded) = [msgA1, msgA1]
   \<and> messages (page_step (Push msgA1) st_A_loaded) \<noteq> messages st_A_loaded"
  by code_simp

text \<open>
  Claim C1, amended. For every message list and every pushed message whose conversation id
  equals the current selection, handling the push appends the message at the end of the
  list, whether or not a message with the same identifier is already in the list. This
  holds of the handler as a function, and of the push event in every state the page can
  reach with a socket.
\<close>

theorem push_for_selection_appends:
  "(chat_id msg = c_id (snd c) \<longrightarrow>
      messages (handleNewMessage (Some c) msg st) = messages st @ [msg])
   \<and> (socket (sockmod (page_run evs (mount token m))) \<noteq> None
        \<and> selectedChat (page_run evs (mount token m)) = Some c
        \<and> chat_id msg = c_id (snd c) \<longrightarrow>
      messages (page_step (Push msg) (page_run evs (mount token m)))
        = messages (page_run evs (mount token m)) @ [msg])"
proof -
  let ?st = "page_run evs (mount token m)"
  have inv: "page_inv ?st"
    by (rule page_inv_run [OF page_inv_mount])
  have a: "chat_id msg = c_id (snd c) \<longrightarrow>
      messages (handleNewMessage (Some c) msg st) = messages st @ [msg]"
    by (simp add: handleNewMessage_def setMessages_def setChats_def Let_def)
  have b: "socket (sockmod ?st) \<noteq> None \<and> selectedChat ?st = Some c
      \<and> chat_id msg = c_id (snd c) \<longrightarrow>
      messages (page_step (Push msg) ?st) = messages ?st @ [msg]"
    using inv
    by (auto simp: page_inv_def messages_commit handleNewMessage_def setMessages_def
        setChats_def Let_def)
  from a b show ?thesis by blast
qed

theorem push_for_selection_appends_witness:
  "messages (page_step (Push msgA1) st_A_loaded) = messages st_A_loaded @ [msgA1]
   \<and> messages (handleNewMessage (Some (1, chatA)) msgA1 st_A_loaded)
       = messages st_A_loaded @ [msgA1]
   \<and> socket (sockmod st_A_loaded) \<noteq> None
   \<and> selectedChat st_A_loaded = Some (1, chatA) \<and> chat_id msgA1 = c_id chatA"
proof -
  have h: "socket (sockmod st_A_loaded) \<noteq> None
      \<and> selectedChat st_A_loaded = Some (1, chatA)
      \<and> chat_id msgA1 = c_id (snd (1::nat, chatA))"
    by code_simp
  show ?thesis
    using h push_for_selection_appends
      [of msgA1 "(1, chatA)" st_A_loaded
          "[Select (1, chatA), MessagesFetched ''A'' (Inr (Some (Some [msgA1])))]"
          "Some ''tok''" module_init]
    by (simp add: st_A_loaded_def)
qed

text \<open>
  Claim C2, as stated, fails: chat A is selected, then chat B, and the list shown for B is
  empty; when the history request made for A then succeeds with \<open>[m1]\<close>, the list becomes
  \<open>[m1]\<close> while B stays selected.
\<close>

theorem stale_fetch_overwrites:
  "GetMessages ''A'' \<in> set (requests st_A_then_B)
   \<and> map_option snd (selectedChat st_A_then_B) = Some chatB
   \<and> c_id chatB \<noteq> ''A''
   \<and> messages st_A_then_B = []
   \<and> messages (page_step (MessagesFetched ''A'' (Inr (Some (Some [msgA1])))) st_A_then_B)
       = [msgA1]
   \<and> map_option snd (selectedChat
         (page_step (MessagesFetched ''A'' (Inr (Some (Some [msgA1])))) st_A_then_B))
       = Some chatB"
  by code_simp

text \<open>
  Claim C2, amended. The result of a history request is applied to the message list
  whenever it arrives, for every conversation id and every current selection: a response
  replaces the list by the messages fetched, or by the empty list when the response has
  none, and the selection stays as it is.
\<close>

theorem fetch_result_always_applied:
  "fetchMessages_resume chatId (Inr (Some field)) st
     = Inr (setMessages (case field of Some ms \<Rightarrow> ms | None \<Rightarrow> []) st)
   \<and> messages (page_step (MessagesFetched chatId (Inr (Some (Some ms)))) st) = ms
   \<and> messages (page_step (MessagesFetched chatId (Inr (Some None))) st) = []
   \<and> selectedChat (page_step (MessagesFetched chatId r) st) = selectedChat st"
  by (auto simp: messages_commit selectedChat_commit fetchMessages_resume_def
      fetchMessages_try_def settle_def setMessages_def console_error_def
      split: sum.splits option.splits)

section \<open>Room subscription\<close>

text \<open>
  Claim C3 (single subscription, leave before join). For every sequence of events of the
  page, selections among them, from its first render: the signals emitted start with a
  join, every later join comes right after the leave of the room joined before it, and
  the connection is in at most one room at every moment.
\<close>

theorem single_subscription_leave_before_join:
  "leave_before_join None (emitted (page_run evs (mount token m)))
   \<and> at_most_one_room [] (emitted (page_run evs (mount token m)))"
proof -
  have "page_inv (page_run evs (mount token m))"
    by (rule page_inv_run [OF page_inv_mount])
  then have "leave_before_join None (emitted (page_run evs (mount token m)))"
    by (simp add: page_inv_def)
  then show ?thesis
    using lbj_one_room [of None] by simp
qed

theorem single_subscription_leave_before_join_witness:
  "emitted st_A_then_B = [join_chat ''A'', leave_chat ''A'', join_chat ''B'']
   \<and> leave_before_join None (emitted st_A_then_B)
   \<and> at_most_one_room [] (emitted st_A_then_B)"
proof -
  have "emitted st_A_then_B = [join_chat ''A'', leave_chat ''A'', join_chat ''B'']"
    by code_simp
  then show ?thesis
    using single_subscription_leave_before_join
      [of "[Select (1, chatA), Select (2, chatB)]" "Some ''tok''" module_init]
    by (simp add: st_A_then_B_def)
qed

section \<open>Conversation list projection\<close>

text \<open>
  Claim C6 (selection-independent projection). For every pushed message and every list of
  conversations, handling the push gives the same list whatever the selection is; the list
  keeps its length and the order of its ids; every conversation with the id of the message
  gets as preview the first 60 code units of the content and as last-activity time the
  creation time of the message, its other fields unchanged; every other conversation is
  unchanged. In every state the page can reach with a socket, the push event gives
  this list.
\<close>

theorem projection_selection_independent:
  "chats (handleNewMessage sel msg st) = chats (handleNewMessage sel' msg st)
   \<and> length (chats (handleNewMessage sel msg st)) = length (chats st)
   \<and> map c_id (chats (handleNewMessage sel msg st)) = map c_id (chats st)
   \<and> (\<forall>i < length (chats st).
        if c_id (chats st ! i) = chat_id msg
        then chats (handleNewMessage sel msg st) ! i
               = (chats st ! i)\<lparr>last_message_preview := map_option (take 60) (content msg),
                                 last_message_at := Some (created_at msg)\<rparr>
        else chats (handleNewMessage sel msg st) ! i = chats st ! i)
   \<and> (socket (sockmod (page_run evs (mount token m))) \<noteq> None \<longrightarrow>
        chats (page_step (Push msg) (page_run evs (mount token m)))
          = chats (handleNewMessage sel msg (page_run evs (mount token m))))"
proof -
  have c: "chats (handleNewMessage s msg st) = map (project msg) (chats st)" for s
    by (simp add: handleNewMessage_def setMessages_def setChats_def Let_def split: option.splits)
  have "map c_id (map (project msg) cs) = map c_id cs" for cs
    by (induction cs) (simp_all add: project_def)
  then have a: "chats (handleNewMessage sel msg st) = chats (handleNewMessage sel' msg st)
   \<and> length (chats (handleNewMessage sel msg st)) = length (chats st)
   \<and> map c_id (chats (handleNewMessage sel msg st)) = map c_id (chats st)
   \<and> (\<forall>i < length (chats st).
        if c_id (chats st ! i) = chat_id msg
        then chats (handleNewMessage sel msg st) ! i
               = (chats st ! i)\<lparr>last_message_preview := map_option (take 60) (content msg),
                                 last_message_at := Some (created_at msg)\<rparr>
        else chats (handleNewMessage sel msg st) ! i = chats st ! i)"
    by (simp add: c project_def)
  have "page_inv (page_run evs (mount token m))"
    by (rule page_inv_run [OF page_inv_mount])
  then have "socket (sockmod (page_run evs (mount token m))) \<noteq> None \<longrightarrow>
        chats (page_step (Push msg) (page_run evs (mount token m)))
          = chats (handleNewMessage sel msg (page_run evs (mount token m)))"
    by (auto simp: page_inv_def chats_commit handleNewMessage_def setMessages_def setChats_def
        Let_def split: option.splits)
  with a show ?thesis by blast
qed

theorem projection_selection_independent_witness:
  "(0::nat) < length (chats st_list_B)
   \<and> map_option snd (selectedChat st_list_B) = Some chatB
   \<and> c_id (chats st_list_B ! 0) = chat_id msgA_long
   \<and> c_id (chats st_list_B ! 1) \<noteq> chat_id msgA_long
   \<and> chats (handleNewMessage (selectedChat st_list_B) msgA_long st_list_B) ! 0
       = (chats st_list_B ! 0)\<lparr>last_message_preview := Some (replicate 60 0x61),
                                last_message_at := Some ''2024-01-01T10:05:00Z''\<rparr>
   \<and> chats (handleNewMessage (selectedChat st_list_B) msgA_long st_list_B) ! 1
       = chats st_list_B ! 1
   \<and> socket (sockmod st_list_B) \<noteq> None
   \<and> chats (page_step (Push msgA_long) st_list_B)
       = chats (handleNewMessage None msgA_long st_list_B)"
proof -
  have h: "(0::nat) < length (chats st_list_B) \<and> (1::nat) < length (chats st_list_B)
     \<and> map_option snd (selectedChat st_list_B) = Some chatB
     \<and> c_id (chats st_list_B ! 0) = chat_id msgA_long
     \<and> c_id (chats st_list_B ! 1) \<noteq> chat_id msgA_long
     \<and> map_option (take 60) (content msgA_long) = Some (replicate 60 0x61)
     \<and> created_at msgA_long = ''2024-01-01T10:05:00Z''
     \<and> socket (sockmod st_list_B) \<noteq> None"
    by code_simp
  have p: "socket (sockmod st_list_B) \<noteq> None \<longrightarrow>
        chats (page_step (Push msgA_long) st_list_B)
          = chats (handleNewMessage None msgA_long st_list_B)"
    using projection_selection_independent
      [of None msgA_long st_list_B None
          "[ChatsFetched (Inr (Some (Some [chatA, chatB]))), Select (2, chatB)]"
          "Some ''tok''" module_init]
    by (simp add: st_list_B_def)
  have q: "\<forall>i < length (chats st_list_B).
        if c_id (chats st_list_B ! i) = chat_id msgA_long
        then chats (handleNewMessage (selectedChat st_list_B) msgA_long st_list_B) ! i
               = (chats st_list_B ! i)\<lparr>last_message_preview := map_option (take 60) (content msgA_long),
                                 last_message_at := Some (created_at msgA_long)\<rparr>
        else chats (handleNewMessage (selectedChat st_list_B) msgA_long st_list_B) ! i = chats st_list_B ! i"
    using projection_selection_independent [of "selectedChat st_list_B" msgA_long st_list_B None]
    by blast
  from q [rule_format, of 0] q [rule_format, of 1] h p show ?thesis
    by simp
qed

section \<open>Fetch errors\<close>

text \<open>
  Claim C9, as stated, fails in its second half. Chat A is selected and its history
  \<open>[m1]\<close> loaded, then chat B is created from the sidebar and becomes the selection;
  when the history request for B fails, the list shown is still \<open>[m1]\<close>, where an empty
  result would have made it empty. Likewise a message pushed while the history request is
  in flight stays in the list when the request fails, and a chat created while the list
  request is in flight stays in the list of chats when that request fails.
\<close>

theorem fetch_failure_view_not_empty:
  "GetMessages ''B'' \<in> set (requests st_created_B)
   \<and> map_option snd (selectedChat st_created_B) = Some chatB
   \<and> messages (page_step (MessagesFetched ''B'' (Inl (Rejected ''Network Error''))) st_created_B)
       = [msgA1]
   \<and> messages (page_step (MessagesFetched ''B'' (Inr (Some (Some [])))) st_created_B) = []
   \<and> GetMessages ''A'' \<in> set (requests st_A_pushed)
   \<and> messages (page_step (MessagesFetched ''A'' (Inl (Rejected ''Network Error''))) st_A_pushed)
       = [msgA1]
   \<and> GetChats \<in> set (requests st_created_early)
   \<and> chats (page_step (ChatsFetched (Inl (Rejected ''Network Error''))) st_created_early)
       = [chatB]
   \<and> chats (page_step (ChatsFetched (Inr (Some (Some [])))) st_created_early) = []"
  by code_simp

text \<open>
  Claim C9, amended. For every outcome of a history or conversation-list request the
  function that made it completes without throwing to its caller. When the request fails,
  or its response has no data, the error is logged and absorbed, and the list concerned
  is left exactly as it was (so it is empty when it was empty before); the list request
  also clears the loading flag.
\<close>

theorem fetch_failure_absorbed:
  "(\<exists>st'. fetchMessages_resume chatId r st = Inr st')
   \<and> (\<exists>st'. fetchChats_resume r' st = Inr st')
   \<and> fetchMessages_resume chatId (Inl err) st = Inr (st\<lparr>console := console st @ [err]\<rparr>)
   \<and> fetchMessages_resume chatId (Inr None) st = Inr (st\<lparr>console := console st @ [TypeError]\<rparr>)
   \<and> fetchChats_resume (Inl err) st
       = Inr (st\<lparr>console := console st @ [err], loadingChats := False\<rparr>)
   \<and> fetchChats_resume (Inr None) st
       = Inr (st\<lparr>console := console st @ [TypeError], loadingChats := False\<rparr>)
   \<and> messages (page_step (MessagesFetched chatId (Inl err)) st) = messages st
   \<and> chats (page_step (MessagesFetched chatId (Inl err)) st) = chats st
   \<and> chats (page_step (ChatsFetched (Inl err)) st) = chats st
   \<and> messages (page_step (ChatsFetched (Inl err)) st) = messages st
   \<and> unhandled (page_step (MessagesFetched chatId r) st) = unhandled st
   \<and> unhandled (page_step (ChatsFetched r') st) = unhandled st"
proof -
  have m: "\<exists>st'. fetchMessages_resume chatId r st = Inr st'"
    by (simp add: fetchMessages_resume_def split: sum.splits)
  have c: "\<exists>st'. fetchChats_resume r' st = Inr st'"
    by (simp add: fetchChats_resume_def split: sum.splits)
  have um: "unhandled (page_step (MessagesFetched chatId r) st) = unhandled st"
    by (auto simp: unhandled_commit fetchMessages_resume_def fetchMessages_try_def settle_def
        setMessages_def console_error_def split: sum.splits option.splits)
  have uc: "unhandled (page_step (ChatsFetched r') st) = unhandled st"
    by (auto simp: unhandled_commit fetchChats_resume_def fetchChats_try_def settle_def
        setChats_def setLoadingChats_def console_error_def split: sum.splits option.splits)
  have rest: "fetchMessages_resume chatId (Inl err) st = Inr (st\<lparr>console := console st @ [err]\<rparr>)
   \<and> fetchMessages_resume chatId (Inr None) st = Inr (st\<lparr>console := console st @ [TypeError]\<rparr>)
   \<and> fetchChats_resume (Inl err) st
       = Inr (st\<lparr>console := console st @ [err], loadingChats := False\<rparr>)
   \<and> fetchChats_resume (Inr None) st
       = Inr (st\<lparr>console := console st @ [TypeError], loadingChats := False\<rparr>)
   \<and> messages (page_step (MessagesFetched chatId (Inl err)) st) = messages st
   \<and> chats (page_step (MessagesFetched chatId (Inl err)) st) = chats st
   \<and> chats (page_step (ChatsFetched (Inl err)) st) = chats st
   \<and> messages (page_step (ChatsFetched (Inl err)) st) = messages st"
    by (simp add: messages_commit chats_commit fetchMessages_resume_def fetchMessages_try_def
        fetchChats_resume_def fetchChats_try_def settle_def setLoadingChats_def console_error_def)
  from m c um uc rest show ?thesis by blast
qed

section \<open>The chat window: timers\<close>

lemmas cw_defs = setTimeout_def clearTimeout_def cw_emit_def fire_def
  setTypingUsers_def handleTyping_event_def typing_listener_cleanup_def
  typing_listener_effect_def reset_effect_def set_chat_def handleTyping_def onChange_def
  handleSend_start_def handleSend_resume_def getSocket_def

lemma elapse_none: "timers st = [] \<Longrightarrow> elapse d st = st\<lparr>now := now st + d\<rparr>"
  by (simp add: elapse_def Let_def)

lemma elapse_single:
  "timers st = [t] \<Longrightarrow>
   elapse d st =
     (if due t \<le> now st + d
      then st\<lparr>now := now st + d, timers := [], cw_emitted := cw_emitted st @ [typing_stop (stop_for t)]\<rparr>
      else st\<lparr>now := now st + d\<rparr>)"
  by (simp add: elapse_def Let_def fire_def cw_emit_def)

lemma run_elapse_none:
  "timers st = [] \<Longrightarrow> cw_emitted (cw_run (map Elapse ds) st) = cw_emitted st"
  unfolding cw_run_def
  by (induction ds arbitrary: st) (simp_all add: elapse_none)

lemma run_elapse_single:
  "timers st = [t] \<Longrightarrow> now st < due t \<Longrightarrow>
   cw_emitted (cw_run (map Elapse ds) st)
     = cw_emitted st @ (if due t \<le> now st + sum_list ds then [typing_stop (stop_for t)] else [])"
proof (induction ds arbitrary: st)
  case Nil
  then show ?case by (simp add: cw_run_def)
next
  case (Cons d ds)
  show ?case
  proof (cases "due t \<le> now st + d")
    case True
    then have e: "elapse d st = st\<lparr>now := now st + d, timers := [], cw_emitted := cw_emitted st @ [typing_stop (stop_for t)]\<rparr>"
      using Cons.prems by (simp add: elapse_single)
    have "cw_emitted (cw_run (map Elapse ds) (elapse d st)) = cw_emitted (elapse d st)"
      by (rule run_elapse_none) (simp add: e)
    then show ?thesis using True by (simp add: cw_run_def e)
  next
    case False
    then have e: "elapse d st = st\<lparr>now := now st + d\<rparr>"
      using Cons.prems by (simp add: elapse_single)
    have "timers (elapse d st) = [t]" "now (elapse d st) < due t"
      using Cons.prems False by (simp_all add: e)
    from Cons.IH [OF this] show ?thesis
      by (simp add: cw_run_def e add.assoc)
  qed
qed











section \<open>Typing signals\<close>




text \<open>
  Claim C4, as stated, fails: a keystroke in chat A arms the timeout; switching to chat B
  emits no typing-stop and leaves the timeout pending; 2000 ms later it fires and emits
  typing-stop for A, the chat no longer selected.
\<close>

theorem switch_away_no_typing_stop:
  "map_option snd (cw_chat cw_A_typed) = Some chatA
   \<and> timers cw_A_typed = [\<lparr>timer_id = 1, due = 2000, stop_for = ''A''\<rparr>]
   \<and> cw_emitted cw_A_typed = [typing_start ''A'']
   \<and> map_option snd (cw_chat (cw_step (ChatProp (Some (2, chatB))) cw_A_typed)) = Some chatB
   \<and> cw_emitted (cw_step (ChatProp (Some (2, chatB))) cw_A_typed) = [typing_start ''A'']
   \<and> timers (cw_step (ChatProp (Some (2, chatB))) cw_A_typed)
       = [\<lparr>timer_id = 1, due = 2000, stop_for = ''A''\<rparr>]
   \<and> cw_emitted (cw_run [ChatProp (Some (2, chatB)), Elapse 2000] cw_A_typed)
       = [typing_start ''A'', typing_stop ''A'']"
  by code_simp

text \<open>
  Claim C4, amended. Switching the selection emits no typing signal and does not disarm
  the idle timeout: the window emits nothing, the pending timeouts and
  \<^verbatim>\<open>typingTimeoutRef\<close> stay as they are, and what the page emits in the same switch (the
  leave and the join of claim C3) has no typing-start and no typing-stop in it. When one
  timeout is pending and only time passes after the switch, it fires at its deadline and
  emits the typing-stop for the conversation it was armed for, once.
\<close>

theorem switch_away_keeps_timer:
  "cw_emitted (cw_step (ChatProp sel) st) = cw_emitted st
   \<and> timers (cw_step (ChatProp sel) st) = timers st
   \<and> typingTimeoutRef (cw_step (ChatProp sel) st) = typingTimeoutRef st
   \<and> (timers st = [t] \<and> now st < due t \<longrightarrow>
        cw_emitted (cw_run (map Elapse ds) (cw_step (ChatProp sel) st))
          = cw_emitted st
              @ (if due t \<le> now st + sum_list ds then [typing_stop (stop_for t)] else []))
   \<and> filter is_typing_signal (emitted (page_step (Select c) pst))
       = filter is_typing_signal (emitted pst)
   \<and> filter is_typing_signal (emitted (page_step (Created c) pst))
       = filter is_typing_signal (emitted pst)"
proof -
  have a: "cw_emitted (set_chat sel st) = cw_emitted st" "timers (set_chat sel st) = timers st"
    "typingTimeoutRef (set_chat sel st) = typingTimeoutRef st" "now (set_chat sel st) = now st"
    by (simp_all add: cw_defs split: option.splits)
  have "cw_emitted (cw_run (map Elapse ds) (set_chat sel st))
          = cw_emitted st
              @ (if due t \<le> now st + sum_list ds then [typing_stop (stop_for t)] else [])"
    if "timers st = [t]" "now st < due t"
    using run_elapse_single [of "set_chat sel st" t ds] that by (simp add: a)
  with a typing_signals_page_step [of "Select c" pst] typing_signals_page_step [of "Created c" pst]
  show ?thesis by simp
qed

theorem switch_away_keeps_timer_witness:
  "timers cw_A_typed = [\<lparr>timer_id = 1, due = 2000, stop_for = ''A''\<rparr>]
   \<and> now cw_A_typed < 2000
   \<and> cw_emitted (cw_step (ChatProp (Some (2, chatB))) cw_A_typed) = [typing_start ''A'']
   \<and> cw_emitted (cw_run (map Elapse [500, 1500]) (cw_step (ChatProp (Some (2, chatB))) cw_A_typed))
       = [typing_start ''A'', typing_stop ''A'']
   \<and> emitted (page_step (Select (2, chatB)) st_A_loaded)
       = [join_chat ''A'', leave_chat ''A'', join_chat ''B'']
   \<and> filter is_typing_signal (emitted (page_step (Select (2, chatB)) st_A_loaded)) = []"
proof -
  have h: "timers cw_A_typed = [\<lparr>timer_id = 1, due = 2000, stop_for = ''A''\<rparr>]"
    "now cw_A_typed = 0" "cw_emitted cw_A_typed = [typing_start ''A'']"
    by code_simp+
  have g: "emitted st_A_loaded = [join_chat ''A'']"
    "emitted (page_step (Select (2, chatB)) st_A_loaded)
       = [join_chat ''A'', leave_chat ''A'', join_chat ''B'']"
    by code_simp+
  show ?thesis
    using h g switch_away_keeps_timer
      [of "Some (2, chatB)" cw_A_typed "\<lparr>timer_id = 1, due = 2000, stop_for = ''A''\<rparr>"
          "[500, 1500]" "(2, chatB)" st_A_loaded]
    by simp
qed

section \<open>The remote typing set\<close>

lemma distinct_update_typing: "distinct prev \<Longrightarrow> distinct (update_typing data prev)"
  by (simp add: update_typing_def)

lemma typingUsers_elapse: "typingUsers (elapse d st) = typingUsers st"
proof -
  have "typingUsers (fold fire ts s) = typingUsers s" for ts s
    by (induction ts arbitrary: s) (simp_all add: fire_def cw_emit_def)
  then show ?thesis by (simp add: elapse_def Let_def)
qed

lemma distinct_cw_step:
  "distinct (typingUsers st) \<Longrightarrow> distinct (typingUsers (cw_step e st))"
  by (cases e)
     (auto simp: cw_defs Let_def typingUsers_elapse distinct_update_typing
        split: option.splits prod.splits)

lemma distinct_cw_run:
  "distinct (typingUsers st) \<Longrightarrow> distinct (typingUsers (cw_run evs st))"
  unfolding cw_run_def by (induction evs arbitrary: st) (simp_all add: distinct_cw_step)

text \<open>
  Claim C10 (no duplicates in the typing set). After every sequence of events of the
  window the list of typing users has no user id twice. Every step keeps this, the
  \<^verbatim>\<open>user_typing\<close> listener and the reset on a change of chat among them. A signal
  with \<^verbatim>\<open>is_typing\<close> true for a user already in the list changes nothing; a signal with
  \<^verbatim>\<open>is_typing\<close> false that passes the checks of the listener removes the user, and
  changes nothing when the user is not in the list.
\<close>

theorem typing_users_distinct:
  "distinct (typingUsers (cw_run evs (cw_mount usr m)))
   \<and> (distinct (typingUsers st) \<longrightarrow> distinct (typingUsers (cw_step e st)))
   \<and> (distinct (typingUsers st) \<longrightarrow> distinct (typingUsers (handleTyping_event c u data st)))
   \<and> distinct (typingUsers (reset_effect st))
   \<and> (is_typing data \<and> t_user_id data \<in> set (typingUsers st) \<longrightarrow>
        handleTyping_event c u data st = st)
   \<and> (\<not> is_typing data \<and> t_chat_id data = c_id (snd c)
        \<and> (\<forall>v. u = Some v \<longrightarrow> t_user_id data \<noteq> u_id v) \<longrightarrow>
        typingUsers (handleTyping_event c u data st)
          = filter (\<lambda>i. i \<noteq> t_user_id data) (typingUsers st)
        \<and> t_user_id data \<notin> set (typingUsers (handleTyping_event c u data st)))
   \<and> (\<not> is_typing data \<and> t_user_id data \<notin> set (typingUsers st) \<longrightarrow>
        handleTyping_event c u data st = st)"
proof -
  have r: "distinct (typingUsers (cw_run evs (cw_mount usr m)))"
    by (rule distinct_cw_run) (simp add: cw_mount_def)
  have h: "distinct (typingUsers st) \<longrightarrow> distinct (typingUsers (handleTyping_event c u data st))"
    by (simp add: handleTyping_event_def setTypingUsers_def distinct_update_typing)
  have f: "t_user_id data \<notin> set (typingUsers st)
      \<Longrightarrow> filter (\<lambda>i. i \<noteq> t_user_id data) (typingUsers st) = typingUsers st"
    by (induction "typingUsers st") (auto simp: filter_id_conv)
  have rest: "distinct (typingUsers (reset_effect st))
   \<and> (is_typing data \<and> t_user_id data \<in> set (typingUsers st) \<longrightarrow>
        handleTyping_event c u data st = st)
   \<and> (\<not> is_typing data \<and> t_chat_id data = c_id (snd c)
        \<and> (\<forall>v. u = Some v \<longrightarrow> t_user_id data \<noteq> u_id v) \<longrightarrow>
        typingUsers (handleTyping_event c u data st)
          = filter (\<lambda>i. i \<noteq> t_user_id data) (typingUsers st)
        \<and> t_user_id data \<notin> set (typingUsers (handleTyping_event c u data st)))
   \<and> (\<not> is_typing data \<and> t_user_id data \<notin> set (typingUsers st) \<longrightarrow>
        handleTyping_event c u data st = st)"
    using f
    by (auto simp: reset_effect_def handleTyping_event_def setTypingUsers_def update_typing_def
        split: option.splits)
  from r h rest distinct_cw_step [of st e] show ?thesis by blast
qed

theorem typing_users_distinct_witness:
  "typingUsers cw_u2_typing = [''u2'']
   \<and> distinct (typingUsers cw_u2_typing)
   \<and> is_typing typing_u2 \<and> t_user_id typing_u2 \<in> set (typingUsers cw_u2_typing)
   \<and> cw_step (UserTyping typing_u2) cw_u2_typing = cw_u2_typing
   \<and> \<not> is_typing stopped_u2
   \<and> typingUsers (cw_step (UserTyping stopped_u2) cw_u2_typing) = []
   \<and> t_user_id stopped_u2 \<notin> set (typingUsers cw_A_selected)
   \<and> cw_step (UserTyping stopped_u2) cw_A_selected = cw_A_selected
   \<and> distinct (typingUsers (cw_step (ChatProp (Some (2, chatB))) cw_u2_typing))"
proof -
  have l: "typing_listener cw_u2_typing = Some ((1, chatA), Some user1)"
    "typing_listener cw_A_selected = Some ((1, chatA), Some user1)"
    by code_simp+
  have h: "typingUsers cw_u2_typing = [''u2'']" "typingUsers cw_A_selected = []"
    "is_typing typing_u2" "t_user_id typing_u2 = ''u2''"
    "\<not> is_typing stopped_u2" "t_user_id stopped_u2 = ''u2''"
    "t_chat_id stopped_u2 = c_id (snd (1::nat, chatA))"
    "\<forall>v. Some user1 = Some v \<longrightarrow> t_user_id stopped_u2 \<noteq> u_id v"
    by (simp_all add: cw_u2_typing_def cw_A_selected_def cw_run_def cw_mount_def stopped_u2_def
        typing_u2_def chatA_def user1_def module_connected_def module_init_def connectSocket_def
        Let_def set_chat_def typing_listener_cleanup_def typing_listener_effect_def
        reset_effect_def setTypingUsers_def getSocket_def handleTyping_event_def
        update_typing_def)
  show ?thesis
    using l h
      typing_users_distinct [of "[]" "Some user1" module_connected cw_u2_typing
        "ChatProp (Some (2, chatB))" "(1, chatA)" "Some user1" typing_u2]
      typing_users_distinct [of "[]" "Some user1" module_connected cw_u2_typing
        "ChatProp (Some (2, chatB))" "(1, chatA)" "Some user1" stopped_u2]
      typing_users_distinct [of "[]" "Some user1" module_connected cw_A_selected
        "ChatProp (Some (2, chatB))" "(1, chatA)" "Some user1" stopped_u2]
    by simp
qed

end
